theory Spec2Isabelle
  imports Complex_Main "HOL-Library.Word" "HOL-Library.Sublist" "HOL-Library.AList"
begin

section \<open>Python exceptions and outcomes\<close>

text \<open>
  An exception class is described by what \<^verbatim>\<open>main_denoising.py\<close> can observe of it:
  its name, whether it derives from \<^verbatim>\<open>Exception\<close> (the clause
  \<^verbatim>\<open>except Exception\<close> of \<^verbatim>\<open>processify\<close> catches nothing else), and
  whether the class can be called with one message string (\<^verbatim>\<open>raise ex_type(message)\<close>).
\<close>

datatype ex_class = ExClass (cls_name: string) (derives_Exception: bool) (takes_message: bool)

text \<open>An exception value: its class and its rendering under \<^verbatim>\<open>'%s'\<close>.\<close>

datatype exn = Exn (ex_type: ex_class) (ex_value: string)

definition ValueError :: ex_class where
  "ValueError = ExClass ''ValueError'' True True"

definition ZeroDivisionError :: ex_class where
  "ZeroDivisionError = ExClass ''ZeroDivisionError'' True True"

definition TypeError :: ex_class where
  "TypeError = ExClass ''TypeError'' True True"

definition OSError :: ex_class where
  "OSError = ExClass ''OSError'' True True"

definition KeyError :: ex_class where
  "KeyError = ExClass ''KeyError'' True True"

definition RuntimeError :: ex_class where
  "RuntimeError = ExClass ''RuntimeError'' True True"




text \<open>
  What a call does: it returns, it raises, or it never comes back (a blocking
  \<^verbatim>\<open>q.get()\<close> on a queue nobody writes to).
\<close>

datatype 'r result = Ok 'r | Raise exn | Hang

section \<open>Module constants\<close>

definition SR :: int where "SR = 16000"
definition WL :: int where "WL = 512"
definition WL2 :: int where "WL2 = WL div 2"
definition NFREQS :: int where "NFREQS = 257"

section \<open>Two-dimensional arrays and numpy broadcasting\<close>

text \<open>
  A 2-D \<^verbatim>\<open>ndarray\<close>: its shape and its rows. The element type \<^typ>\<open>'a\<close> stands for
  the platform's floating-point numbers; their operations are parameters of the model
  (record \<open>ext\<close> below), so nothing is assumed of rounding.
\<close>

record 'a ndarray =
  nrows :: nat
  ncols :: nat
  rows :: "'a list list"

text \<open>The invariant of an array: as many rows as the shape says, each of the shape's width.\<close>

definition wf_ndarray :: "'a ndarray \<Rightarrow> bool" where
  "wf_ndarray A = (length (rows A) = nrows A \<and> list_all (\<lambda>r. length r = ncols A) (rows A))"

definition cell :: "'a ndarray \<Rightarrow> nat \<Rightarrow> nat \<Rightarrow> 'a" where
  "cell A i j = rows A ! i ! j"

definition shape :: "'a ndarray \<Rightarrow> nat \<times> nat" where
  "shape A = (nrows A, ncols A)"

text \<open>One axis of numpy's broadcasting rule: equal sizes, or one of them is 1.\<close>

definition bdim :: "nat \<Rightarrow> nat \<Rightarrow> nat option" where
  "bdim a b = (if a = b then Some a else if a = 1 then Some b else if b = 1 then Some a else None)"

definition bidx :: "nat \<Rightarrow> nat \<Rightarrow> nat" where
  "bidx n i = (if n = 1 then 0 else i)"

definition broadcastable :: "'a ndarray \<Rightarrow> 'a ndarray \<Rightarrow> bool" where
  "broadcastable A B = (bdim (nrows A) (nrows B) \<noteq> None \<and> bdim (ncols A) (ncols B) \<noteq> None)"

text \<open>An axis of size 1 is repeated to the size \<open>m\<close> of the result; any other axis is kept.\<close>

definition stretch :: "nat \<Rightarrow> nat \<Rightarrow> 'b list \<Rightarrow> 'b list" where
  "stretch n m xs = (if n = 1 then replicate m (hd xs) else xs)"

text \<open>
  An elementwise binary operator of numpy on two 2-D arrays: the operands are broadcast
  against each other, and shapes that cannot be broadcast raise \<^verbatim>\<open>ValueError\<close>.
\<close>

definition broadcast2 :: "('a \<Rightarrow> 'a \<Rightarrow> 'a) \<Rightarrow> 'a ndarray \<Rightarrow> 'a ndarray \<Rightarrow> exn + 'a ndarray" where
  "broadcast2 f A B =
     (case (bdim (nrows A) (nrows B), bdim (ncols A) (ncols B)) of
        (Some r, Some c) \<Rightarrow>
          Inr \<lparr>nrows = r, ncols = c,
               rows = map2 (\<lambda>a b. map2 f (stretch (ncols A) c a) (stretch (ncols B) c b))
                        (stretch (nrows A) r (rows A)) (stretch (nrows B) r (rows B))\<rparr>
      | _ \<Rightarrow> Inl (Exn ValueError ''operands could not be broadcast together''))"

definition map_ndarray :: "('a \<Rightarrow> 'a) \<Rightarrow> 'a ndarray \<Rightarrow> 'a ndarray" where
  "map_ndarray f A = A\<lparr>rows := map (map f) (rows A)\<rparr>"

section \<open>Python integers, slices and the chunk arithmetic\<close>

text \<open>\<^verbatim>\<open>int(x)\<close> on a float truncates towards zero.\<close>

definition py_int :: "real \<Rightarrow> int" where
  "py_int x = (if 0 \<le> x then \<lfloor>x\<rfloor> else \<lceil>x\<rceil>)"

text \<open>
  \<^verbatim>\<open>xs[b:e]\<close>: a negative bound counts from the end, and both bounds are clamped to
  the sequence.
\<close>

definition slice_bound :: "int \<Rightarrow> int \<Rightarrow> nat" where
  "slice_bound n k = nat (if k < 0 then max 0 (k + n) else min k n)"

definition py_slice :: "'a list \<Rightarrow> int \<Rightarrow> int \<Rightarrow> 'a list" where
  "py_slice xs b e =
     (let n = int (length xs); lo = slice_bound n b; hi = slice_bound n e
      in take (hi - lo) (drop lo xs))"

text \<open>
  \<^verbatim>\<open>chunk_length = int(truncate_minutes*rate*60)\<close>. The float product is taken
  exactly (as a real number); the truncation is Python's.
\<close>

definition chunk_length_of :: "real \<Rightarrow> int \<Rightarrow> int" where
  "chunk_length_of truncate_minutes rate = py_int (truncate_minutes * of_int rate * 60)"

text \<open>
  \<^verbatim>\<open>total_chunks = int(math.ceil(wav_data.size / chunk_length))\<close>, with true division
  (\<^verbatim>\<open>from __future__ import division\<close>): dividing by the integer 0 raises.
\<close>

definition total_chunks_of :: "nat \<Rightarrow> int \<Rightarrow> exn + int" where
  "total_chunks_of n chunk_length =
     (if chunk_length = 0 then Inl (Exn ZeroDivisionError ''division by zero'')
      else Inr \<lceil>real n / of_int chunk_length\<rceil>)"

text \<open>The samples of chunk \<open>i\<close> (counted from 1): \<^verbatim>\<open>wav_data[bi:ei]\<close>.\<close>

definition chunk_at :: "'a list \<Rightarrow> int \<Rightarrow> int \<Rightarrow> 'a list" where
  "chunk_at wav_data chunk_length i =
     (let bi = (i - 1) * chunk_length; ei = bi + chunk_length
      in py_slice wav_data bi ei)"

section \<open>The world: files, processes and messages\<close>

datatype 'a fdata =
    Media bool int int "'a list list"
  | Htk "'a ndarray" int int
  | Scp string int int
  | Mat "(string \<times> 'a ndarray) list"
  | Pcm16 int "16 word list"

text \<open>
  \<open>Media is_wav rate bitdepth channels\<close> is an input audio file, \<open>Htk feats samp_period parm_kind\<close>
  a feature file written by \<^verbatim>\<open>utils.write_htk\<close>, \<open>Scp path first last\<close> the script line
  \<^verbatim>\<open>irm=path[first,last]\<close>, \<open>Mat vars\<close> a MATLAB file of named arrays and
  \<open>Pcm16 rate samples\<close> what \<^verbatim>\<open>wav_io.write\<close> writes from an \<^verbatim>\<open>int16\<close> array.
\<close>

datatype command =
    FfmpegConvert string string
  | FfmpegSplit string int string
  | FfmpegMerge "string list" int string

datatype event =
    ProcStart
  | ProcJoin
  | PrintSegment string int int
  | PrintFinished string
  | PrintRun command
  | PrintRunFailed command
  | Warn string
  | ErrorMsg string

type_synonym 'a files = "(string \<times> 'a fdata) list"

record 'a world =
  files :: "'a files"
  events :: "event list"
  tmp_count :: nat

text \<open>
  What \<^verbatim>\<open>denoise_wav\<close> uses and \<^verbatim>\<open>main_denoising.py\<close> does not define: the float operations
  (\<^verbatim>\<open>+\<close>, \<^verbatim>\<open>-\<close>, \<^verbatim>\<open>/\<close>, \<^verbatim>\<open>np.log\<close>, \<^verbatim>\<open>* 2**15\<close>,
  \<^verbatim>\<open>astype(np.int16)\<close>), \<^verbatim>\<open>librosa.core.load(path, sr=None)\<close>, the functions of
  \<^verbatim>\<open>utils\<close> (with the window \<^verbatim>\<open>np.hamming(WL)\<close> and the segment sizes the
  call sites fix), the network behind \<^verbatim>\<open>decode_model\<close>, and the names
  \<^verbatim>\<open>tempfile.mkdtemp\<close> picks. Each of them may raise.
\<close>

record 'a ext =
  fadd :: "'a \<Rightarrow> 'a \<Rightarrow> 'a"
  fsub :: "'a \<Rightarrow> 'a \<Rightarrow> 'a"
  fdiv :: "'a \<Rightarrow> 'a \<Rightarrow> 'a"
  flog :: "'a \<Rightarrow> 'a"
  fmul15 :: "'a \<Rightarrow> 'a"
  astype_int16 :: "'a \<Rightarrow> 16 word"
  librosa_load :: "'a files \<Rightarrow> string \<Rightarrow> exn + ('a list \<times> int)"
  peak_normalization :: "'a list \<Rightarrow> exn + 'a list"
  wav2logspec :: "'a list \<Rightarrow> exn + 'a ndarray"
  logspec2wav :: "'a ndarray \<Rightarrow> 'a list \<Rightarrow> exn + 'a list"
  mask_model :: "'a ndarray \<Rightarrow> bool \<Rightarrow> int \<Rightarrow> (exn \<times> string) + 'a ndarray"
  tmp_name :: "nat \<Rightarrow> string"

definition returns :: "exn + 'r \<Rightarrow> 'r result" where
  "returns x = (case x of Inl e \<Rightarrow> Raise e | Inr r \<Rightarrow> Ok r)"

text \<open>Sequencing: the rest runs only when the first part returned.\<close>

definition seq :: "'w \<times> 'r result \<Rightarrow> ('w \<Rightarrow> 'r \<Rightarrow> 'w \<times> 's result) \<Rightarrow> 'w \<times> 's result" where
  "seq m f = (case m of (w, Ok x) \<Rightarrow> f w x | (w, Raise e) \<Rightarrow> (w, Raise e) | (w, Hang) \<Rightarrow> (w, Hang))"

definition os_path_join :: "string \<Rightarrow> string \<Rightarrow> string" where
  "os_path_join a p =
     (if p \<noteq> [] \<and> hd p = CHR ''/'' then p
      else if a = [] \<or> last a = CHR ''/'' then a @ p
      else a @ ''/'' @ p)"

definition write_file :: "string \<Rightarrow> 'a fdata \<Rightarrow> 'a world \<Rightarrow> 'a world" where
  "write_file path f w = w\<lparr>files := AList.update path f (files w)\<rparr>"

definition say :: "event \<Rightarrow> 'a world \<Rightarrow> 'a world" where
  "say ev w = w\<lparr>events := events w @ [ev]\<rparr>"

text \<open>\<^verbatim>\<open>tempfile.mkdtemp()\<close>: the next name of the operating system's choice.\<close>

definition mkdtemp :: "'a ext \<Rightarrow> 'a world \<Rightarrow> string \<times> 'a world" where
  "mkdtemp ext w = (tmp_name ext (tmp_count w), w\<lparr>tmp_count := tmp_count w + 1\<rparr>)"

text \<open>\<^verbatim>\<open>shutil.rmtree(dir)\<close>: every file below the directory goes.\<close>

definition rmtree :: "string \<Rightarrow> 'a world \<Rightarrow> 'a world" where
  "rmtree dir w = w\<lparr>files := filter (\<lambda>(p, f). \<not> prefix (os_path_join dir []) p) (files w)\<rparr>"

text \<open>\<^verbatim>\<open>sio.loadmat(path)[name]\<close>.\<close>

definition loadmat :: "'a files \<Rightarrow> string \<Rightarrow> string \<Rightarrow> exn + 'a ndarray" where
  "loadmat fs path name =
     (case map_of fs path of
        None \<Rightarrow> Inl (Exn OSError ''No such file or directory'')
      | Some (Mat vars) \<Rightarrow>
          (case map_of vars name of
             None \<Rightarrow> Inl (Exn KeyError name)
           | Some A \<Rightarrow> Inr A)
      | Some _ \<Rightarrow> Inl (Exn ValueError ''Unknown mat file type''))"

text \<open>\<^verbatim>\<open>np.concatenate\<close> of a list of 1-D arrays; the empty list raises.\<close>

definition np_concatenate :: "'b list list \<Rightarrow> exn + 'b list" where
  "np_concatenate xss =
     (if xss = [] then Inl (Exn ValueError ''need at least one array to concatenate'')
      else Inr (concat xss))"

section \<open>processify: one worker process per call\<close>

text \<open>
  \<^verbatim>\<open>process_func\<close> runs in the child process. The wrapped function works on the files
  (the child shares nothing else with its parent) and returns or raises, a raise coming
  with its formatted traceback. The result is what the child puts on the queue;
  \<open>None\<close> when it puts nothing, because the exception is not an \<^verbatim>\<open>Exception\<close>
  and leaves \<^verbatim>\<open>process_func\<close> before \<^verbatim>\<open>q.put\<close>.
\<close>

definition process_func ::
  "('f \<Rightarrow> 'f \<times> ((exn \<times> string) + 'r)) \<Rightarrow> 'f
     \<Rightarrow> 'f \<times> ('r option \<times> (ex_class \<times> string \<times> string) option) option" where
  "process_func func fs =
     (case func fs of
        (fs', Inr ret) \<Rightarrow> (fs', Some (Some ret, None))
      | (fs', Inl (e, tb)) \<Rightarrow>
          if derives_Exception (ex_type e)
          then (fs', Some (None, Some (ex_type e, ex_value e, tb)))
          else (fs', None))"

text \<open>\<^verbatim>\<open>ex_type(message)\<close>: a class that takes no single message raises \<^verbatim>\<open>TypeError\<close>.\<close>

definition construct :: "ex_class \<Rightarrow> string \<Rightarrow> exn" where
  "construct c message =
     (if takes_message c then Exn c message
      else Exn TypeError ''function takes a different number of arguments'')"

text \<open>
  \<^verbatim>\<open>wrapper\<close>: start the process, block on the queue, join, then re-raise or return.
\<close>

definition processify ::
  "('a files \<Rightarrow> 'a files \<times> ((exn \<times> string) + 'r)) \<Rightarrow> 'a world \<Rightarrow> 'a world \<times> 'r option result" where
  "processify func w =
     (let w1 = say ProcStart w;
          (fs', queued) = process_func func (files w1);
          w2 = w1\<lparr>files := fs'\<rparr>
      in case queued of
           None \<Rightarrow> (w2, Hang)
         | Some (ret, error) \<Rightarrow>
             (let w3 = say ProcJoin w2
              in case error of
                   Some (etype, evalue, tb_str) \<Rightarrow>
                     (let message = evalue @ '' (in subprocess)'' @ [CHR 0x0A] @ tb_str
                      in (w3, Raise (construct etype message)))
                 | None \<Rightarrow> (w3, Ok ret)))"

section \<open>The mask request\<close>

text \<open>
  Modelled from the spec: \<^verbatim>\<open>utils.write_htk\<close> is not in the source. It stores the
  frame matrix at the path (``Write features to HTK binary format''), with the sample
  period and parameter kind the caller passes.
\<close>

definition write_htk :: "string \<Rightarrow> 'a ndarray \<Rightarrow> int \<Rightarrow> int \<Rightarrow> 'a world \<Rightarrow> 'a world" where
  "write_htk path feats samp_period parm_kind w = write_file path (Htk feats samp_period parm_kind) w"

text \<open>
  Modelled from the spec: \<^verbatim>\<open>decode_model.py\<close> is not in the source. The
  mask-estimation model is an opaque function from the normalized frames and the device
  options to a mask (\<open>mask_model\<close>); \<^verbatim>\<open>decode_model\<close> reads the frames the
  script file names, applies the model and writes the mask as the variable \<^verbatim>\<open>IRM\<close>
  of \<^verbatim>\<open>irm.mat\<close> in the directory it is given.
\<close>

definition decode_model ::
  "'a ext \<Rightarrow> string \<Rightarrow> string \<Rightarrow> int \<Rightarrow> bool \<Rightarrow> int \<Rightarrow> 'a files \<Rightarrow> 'a files \<times> ((exn \<times> string) + unit)" where
  "decode_model ext features_file irm_mat_dir feature_dim use_gpu gpu_id fs =
     (case map_of fs features_file of
        Some (Scp htk_fn lo hi) \<Rightarrow>
          (case map_of fs htk_fn of
             Some (Htk feats samp_period parm_kind) \<Rightarrow>
               (case mask_model ext feats use_gpu gpu_id of
                  Inl err \<Rightarrow> (fs, Inl err)
                | Inr irm \<Rightarrow>
                    (AList.update (os_path_join irm_mat_dir ''irm.mat'') (Mat [(''IRM'', irm)]) fs,
                     Inr ()))
           | _ \<Rightarrow> (fs, Inl (Exn OSError ''cannot read the feature file'', [])))
      | _ \<Rightarrow> (fs, Inl (Exn OSError ''cannot read the script file'', [])))"

section \<open>denoise_wav\<close>

text \<open>\<^verbatim>\<open>normed_noisy = (noisy_htkdata - global_mean) / global_var\<close>.\<close>

definition mvn :: "'a ext \<Rightarrow> 'a ndarray \<Rightarrow> 'a ndarray \<Rightarrow> 'a ndarray \<Rightarrow> exn + 'a ndarray" where
  "mvn ext noisy_htkdata global_mean global_var =
     (case broadcast2 (fsub ext) noisy_htkdata global_mean of
        Inl e \<Rightarrow> Inl e
      | Inr d \<Rightarrow> broadcast2 (fdiv ext) d global_var)"

text \<open>\<^verbatim>\<open>masked_lps = noisy_htkdata + np.log(irm)\<close>.\<close>

definition mask_lps :: "'a ext \<Rightarrow> 'a ndarray \<Rightarrow> 'a ndarray \<Rightarrow> exn + 'a ndarray" where
  "mask_lps ext noisy_htkdata irm = broadcast2 (fadd ext) noisy_htkdata (map_ndarray (flog ext) irm)"

text \<open>
  The body of the loop after the test for a short chunk (lines 193 to 230): features,
  normalization, the feature and script files, the mask request in its own process, the
  mask read back, masking, reconstruction.
\<close>

definition mask_segment ::
  "'a ext \<Rightarrow> 'a ndarray \<Rightarrow> 'a ndarray \<Rightarrow> bool \<Rightarrow> int \<Rightarrow> string \<Rightarrow> 'a list \<Rightarrow> 'a world
     \<Rightarrow> 'a world \<times> 'a list result" where
  "mask_segment ext global_mean global_var use_gpu gpu_id tmp_dir temp w =
     (let noisy_normed_lps_fn = os_path_join tmp_dir ''noisy_normed_lps.htk'';
          noisy_normed_lps_scp_fn = os_path_join tmp_dir ''noisy_normed_lps.scp'';
          irm_fn = os_path_join tmp_dir ''irm.mat''
      in seq (w, returns (wav2logspec ext temp)) (\<lambda>w0 noisy_htkdata.
         seq (w0, returns (mvn ext noisy_htkdata global_mean global_var)) (\<lambda>w1 normed_noisy.
           (let w2 = write_htk noisy_normed_lps_fn normed_noisy SR 9 w1;
                cntk_len = int (nrows noisy_htkdata) - 1;
                w3 = write_file noisy_normed_lps_scp_fn (Scp noisy_normed_lps_fn 0 cntk_len) w2
            in seq (processify
                      (decode_model ext noisy_normed_lps_scp_fn tmp_dir NFREQS use_gpu gpu_id) w3)
                 (\<lambda>w4 none.
                 seq (w4, returns (loadmat (files w4) irm_fn ''IRM'')) (\<lambda>w5 irm.
                 seq (w5, returns (mask_lps ext noisy_htkdata irm)) (\<lambda>w6 masked_lps.
                 (w6, returns (logspec2wav ext masked_lps temp)))))))))"

text \<open>
  One turn of the loop (lines 179 to 232): the temporary directory, the chunk, the progress
  line, the short chunk kept as it is, and \<^verbatim>\<open>finally: shutil.rmtree(tmp_dir)\<close>, which
  runs however the body ends, unless it never ends.
\<close>

definition denoise_segment ::
  "'a ext \<Rightarrow> string \<Rightarrow> 'a ndarray \<Rightarrow> 'a ndarray \<Rightarrow> bool \<Rightarrow> int \<Rightarrow> 'a list \<Rightarrow> int \<Rightarrow> int \<Rightarrow> int
     \<Rightarrow> 'a world \<Rightarrow> 'a world \<times> 'a list result" where
  "denoise_segment ext src_wav_file global_mean global_var use_gpu gpu_id wav_data chunk_length
       total_chunks i w =
     (let (tmp_dir, w1) = mkdtemp ext w;
          temp = chunk_at wav_data chunk_length i;
          w2 = say (PrintSegment src_wav_file i total_chunks) w1;
          (w3, r) = (if int (length temp) < WL2 then (w2, Ok temp)
                     else mask_segment ext global_mean global_var use_gpu gpu_id tmp_dir temp w2)
      in case r of Hang \<Rightarrow> (w3, Hang) | _ \<Rightarrow> (rmtree tmp_dir w3, r))"

text \<open>\<^verbatim>\<open>for i in range(1, total_chunks + 1)\<close>, over the indices still to come.\<close>

fun chunk_loop ::
  "'a ext \<Rightarrow> string \<Rightarrow> 'a ndarray \<Rightarrow> 'a ndarray \<Rightarrow> bool \<Rightarrow> int \<Rightarrow> 'a list \<Rightarrow> int \<Rightarrow> int \<Rightarrow> int list
     \<Rightarrow> 'a list list \<Rightarrow> 'a world \<Rightarrow> 'a world \<times> 'a list list result" where
  "chunk_loop ext src gm gv use_gpu gpu_id wav_data cl tc [] data_se w = (w, Ok data_se)"
| "chunk_loop ext src gm gv use_gpu gpu_id wav_data cl tc (i # rest) data_se w =
     seq (denoise_segment ext src gm gv use_gpu gpu_id wav_data cl tc i w)
       (\<lambda>w' x. chunk_loop ext src gm gv use_gpu gpu_id wav_data cl tc rest (data_se @ [x]) w')"

definition denoise_wav ::
  "'a ext \<Rightarrow> string \<Rightarrow> string \<Rightarrow> 'a ndarray \<Rightarrow> 'a ndarray \<Rightarrow> bool \<Rightarrow> int \<Rightarrow> real \<Rightarrow> 'a world
     \<Rightarrow> 'a world \<times> unit result" where
  "denoise_wav ext src_wav_file dest_wav_file global_mean global_var use_gpu gpu_id
       truncate_minutes w =
     seq (w, returns (librosa_load ext (files w) src_wav_file)) (\<lambda>w0 (y, rate).
     seq (w0, returns (peak_normalization ext (map (fmul15 ext) y))) (\<lambda>w1 wav_data.
       (let chunk_length = chunk_length_of truncate_minutes rate
        in seq (w1, returns (total_chunks_of (length wav_data) chunk_length)) (\<lambda>w2 total_chunks.
           seq (chunk_loop ext src_wav_file global_mean global_var use_gpu gpu_id wav_data
                  chunk_length total_chunks [1..total_chunks] [] w2) (\<lambda>w3 data_se.
           seq (w3, returns (np_concatenate (map (map (astype_int16 ext)) data_se))) (\<lambda>w4 data.
           (write_file dest_wav_file (Pcm16 SR data) w4, Ok ())))))))"

section \<open>main_denoising\<close>

text \<open>
  What \<^verbatim>\<open>main_denoising\<close> uses and \<^verbatim>\<open>main_denoising.py\<close> does not define: the directory of the
  module (\<^verbatim>\<open>HERE\<close>), the probes of \<^verbatim>\<open>utils\<close>, \<^verbatim>\<open>subprocess.run\<close> (its return
  code, or the exception it raises), the names \<^verbatim>\<open>tempfile\<close> picks, and the path
  functions of \<^verbatim>\<open>os.path\<close>. A command line is kept as the values it is formatted from
  (datatype \<open>command\<close>).
\<close>

record 'a osx =
  here :: string
  is_wav :: "'a files \<Rightarrow> string \<Rightarrow> bool"
  get_file_type :: "'a files \<Rightarrow> string \<Rightarrow> string"
  get_sr :: "'a files \<Rightarrow> string \<Rightarrow> int"
  get_bitdepth :: "'a files \<Rightarrow> string \<Rightarrow> int"
  get_num_channels :: "'a files \<Rightarrow> string \<Rightarrow> int"
  listdir :: "'a files \<Rightarrow> string \<Rightarrow> string list"
  run :: "command \<Rightarrow> 'a files \<Rightarrow> 'a files \<times> (exn + int)"
  tmp_file_name :: "string \<Rightarrow> nat \<Rightarrow> string"
  tmp_dir_name :: "string \<Rightarrow> nat \<Rightarrow> string"
  os_path_splitext :: "string \<Rightarrow> string \<times> string"
  os_path_basename :: "string \<Rightarrow> string"














section \<open>What the pipeline computes\<close>

text \<open>
  The values of the loop without the world: what one turn returns for a chunk, what the
  loop collects, and the samples \<^verbatim>\<open>denoise_wav\<close> writes. They are shown below to be
  the results of the definitions above, whatever the files and the temporary names are.
\<close>

definition reraised :: "exn \<Rightarrow> string \<Rightarrow> exn" where
  "reraised e tb = construct (ex_type e) (ex_value e @ '' (in subprocess)'' @ [CHR 0x0A] @ tb)"

definition mask_value ::
  "'a ext \<Rightarrow> 'a ndarray \<Rightarrow> 'a ndarray \<Rightarrow> bool \<Rightarrow> int \<Rightarrow> 'a list \<Rightarrow> 'a list result" where
  "mask_value ext global_mean global_var use_gpu gpu_id temp =
     (case wav2logspec ext temp of
        Inl e \<Rightarrow> Raise e
      | Inr lps \<Rightarrow>
          (case mvn ext lps global_mean global_var of
             Inl e \<Rightarrow> Raise e
           | Inr normed \<Rightarrow>
               (case mask_model ext normed use_gpu gpu_id of
                  Inl (e, tb) \<Rightarrow> if derives_Exception (ex_type e) then Raise (reraised e tb) else Hang
                | Inr irm \<Rightarrow>
                    (case mask_lps ext lps irm of
                       Inl e \<Rightarrow> Raise e
                     | Inr masked \<Rightarrow> returns (logspec2wav ext masked temp)))))"

definition segment_value ::
  "'a ext \<Rightarrow> 'a ndarray \<Rightarrow> 'a ndarray \<Rightarrow> bool \<Rightarrow> int \<Rightarrow> 'a list \<Rightarrow> 'a list result" where
  "segment_value ext global_mean global_var use_gpu gpu_id temp =
     (if int (length temp) < WL2 then Ok temp
      else mask_value ext global_mean global_var use_gpu gpu_id temp)"

fun loop_value ::
  "'a ext \<Rightarrow> 'a ndarray \<Rightarrow> 'a ndarray \<Rightarrow> bool \<Rightarrow> int \<Rightarrow> 'a list \<Rightarrow> int \<Rightarrow> int list \<Rightarrow> 'a list list
     \<Rightarrow> 'a list list result" where
  "loop_value ext gm gv use_gpu gpu_id wav_data cl [] data_se = Ok data_se"
| "loop_value ext gm gv use_gpu gpu_id wav_data cl (i # rest) data_se =
     (case segment_value ext gm gv use_gpu gpu_id (chunk_at wav_data cl i) of
        Ok x \<Rightarrow> loop_value ext gm gv use_gpu gpu_id wav_data cl rest (data_se @ [x])
      | Raise e \<Rightarrow> Raise e
      | Hang \<Rightarrow> Hang)"

definition wav_value ::
  "'a ext \<Rightarrow> exn + ('a list \<times> int) \<Rightarrow> 'a ndarray \<Rightarrow> 'a ndarray \<Rightarrow> bool \<Rightarrow> int \<Rightarrow> real
     \<Rightarrow> 16 word list result" where
  "wav_value ext loaded gm gv use_gpu gpu_id truncate_minutes =
     (case loaded of
        Inl e \<Rightarrow> Raise e
      | Inr (y, rate) \<Rightarrow>
          (case peak_normalization ext (map (fmul15 ext) y) of
             Inl e \<Rightarrow> Raise e
           | Inr wav_data \<Rightarrow>
               (case total_chunks_of (length wav_data) (chunk_length_of truncate_minutes rate) of
                  Inl e \<Rightarrow> Raise e
                | Inr total_chunks \<Rightarrow>
                    (case loop_value ext gm gv use_gpu gpu_id wav_data
                            (chunk_length_of truncate_minutes rate) [1..total_chunks] [] of
                       Ok data_se \<Rightarrow> returns (np_concatenate (map (map (astype_int16 ext)) data_se))
                     | Raise e \<Rightarrow> Raise e
                     | Hang \<Rightarrow> Hang))))"


section \<open>A small instance\<close>

text \<open>
  Concrete stand-ins for what the model takes as parameters, used to run the definitions:
  exact arithmetic on the reals with \<open>x - 1\<close> in the place of the logarithm, a spectrogram
  of one all-zero frame of 257 bins per 256 samples, a mask of one half everywhere that
  fails on two frames, and a reconstruction that shifts the reference samples by the
  first masked value.
\<close>

definition demo_frames :: "real list \<Rightarrow> real ndarray" where
  "demo_frames xs =
     \<lparr>nrows = length xs div 256, ncols = 257,
      rows = replicate (length xs div 256) (replicate 257 0)\<rparr>"

definition demo_mask :: "real ndarray \<Rightarrow> bool \<Rightarrow> int \<Rightarrow> (exn \<times> string) + real ndarray" where
  "demo_mask feats use_gpu gpu_id =
     (if nrows feats = 2 then Inl (Exn RuntimeError ''out of memory'', ''Traceback'')
      else Inr (feats\<lparr>rows := replicate (nrows feats) (replicate (ncols feats) (1 / 2))\<rparr>))"

definition demo_load :: "real files \<Rightarrow> string \<Rightarrow> exn + (real list \<times> int)" where
  "demo_load fs path =
     (case map_of fs path of
        Some (Media w rate depth [ch]) \<Rightarrow> Inr (ch, rate)
      | _ \<Rightarrow> Inl (Exn OSError ''cannot open''))"

definition demo_ext :: "real ext" where
  "demo_ext =
     \<lparr>fadd = (+), fsub = (-), fdiv = (/), flog = (\<lambda>x. x - 1), fmul15 = (\<lambda>x. x * 32768),
      astype_int16 = (\<lambda>x. word_of_int (py_int x)),
      librosa_load = demo_load,
      peak_normalization = Inr,
      wav2logspec = (\<lambda>xs. Inr (demo_frames xs)),
      logspec2wav = (\<lambda>lps ref. Inr (map (\<lambda>x. x + cell lps 0 0) ref)),
      mask_model = demo_mask,
      tmp_name = (\<lambda>n. ''/tmp/tmp'' @ replicate n CHR ''x'')\<rparr>"

definition demo_world :: "real list \<Rightarrow> real world" where
  "demo_world ys = \<lparr>files = [(''a.wav'', Media True 16000 16 [ys])], events = [], tmp_count = 0\<rparr>"

definition demo_mean :: "real ndarray" where
  "demo_mean = \<lparr>nrows = 1, ncols = 257, rows = [replicate 257 0]\<rparr>"

definition demo_var :: "real ndarray" where
  "demo_var = \<lparr>nrows = 1, ncols = 257, rows = [replicate 257 1]\<rparr>"

definition demo_lps :: "real ndarray" where
  "demo_lps = \<lparr>nrows = 2, ncols = 257, rows = [replicate 257 3, replicate 257 5]\<rparr>"

definition demo_stat_mean :: "real ndarray" where
  "demo_stat_mean = \<lparr>nrows = 1, ncols = 257, rows = [replicate 257 1]\<rparr>"

definition demo_stat_var :: "real ndarray" where
  "demo_stat_var = \<lparr>nrows = 1, ncols = 257, rows = [replicate 257 2]\<rparr>"

definition demo_row :: "real ndarray" where
  "demo_row = \<lparr>nrows = 1, ncols = 257, rows = [replicate 257 (1 / 2)]\<rparr>"

definition demo_ext_row :: "real ext" where
  "demo_ext_row = demo_ext\<lparr>mask_model := (\<lambda>feats use_gpu gpu_id. Inr demo_row)\<rparr>"

definition demo_tall :: "real ndarray" where
  "demo_tall = \<lparr>nrows = 3, ncols = 257, rows = replicate 3 (replicate 257 (1 / 2))\<rparr>"

definition demo_ext_tall :: "real ext" where
  "demo_ext_tall = demo_ext\<lparr>mask_model := (\<lambda>feats use_gpu gpu_id. Inr demo_tall)\<rparr>"




definition demo_long :: "real list" where
  "demo_long = replicate 300 0"

definition demo_other_world :: "real list \<Rightarrow> real world" where
  "demo_other_world ys =
     \<lparr>files = [(''/tmp/old/irm.mat'', Mat []), (''a.wav'', Media True 16000 16 [ys])],
      events = [Warn ''earlier run''], tmp_count = 7\<rparr>"






section \<open>Facts about arrays and slices\<close>

lemma bdim_same: "bdim a a = Some a"
  by (simp add: bdim_def)


lemma bdim_cases:
  assumes "bdim n m = Some r"
  shows "(n = 1 \<and> r = m) \<or> (n \<noteq> 1 \<and> r = n)"
  using assms by (auto simp: bdim_def split: if_splits)

lemma stretch_length:
  assumes "length xs = n" and "bdim n m = Some r"
  shows "length (stretch n r xs) = r"
  using bdim_cases [OF assms(2)] assms(1) by (auto simp: stretch_def)

lemma stretch_nth:
  assumes "length xs = n" and "bdim n m = Some r" and "i < r"
  shows "stretch n r xs ! i = xs ! bidx n i"
proof (cases xs)
  case Nil
  then show ?thesis
    using bdim_cases [OF assms(2)] assms(1,3) by (auto simp: stretch_def bidx_def)
next
  case (Cons x rest)
  then show ?thesis
    using bdim_cases [OF assms(2)] assms(1,3) by (auto simp: stretch_def bidx_def)
qed

lemma bdim_sym: "bdim n m = Some r \<Longrightarrow> bdim m n = Some r"
  by (auto simp: bdim_def split: if_splits)

lemma wf_row: "wf_ndarray A \<Longrightarrow> i < nrows A \<Longrightarrow> length (rows A ! i) = ncols A"
  by (simp add: wf_ndarray_def list_all_length)

lemma bidx_less: "bdim n m = Some r \<Longrightarrow> i < r \<Longrightarrow> bidx n i < n"
  by (auto simp: bdim_def bidx_def split: if_splits)

lemma broadcast2_shape:
  assumes "broadcast2 f A B = Inr R"
  shows "bdim (nrows A) (nrows B) = Some (nrows R) \<and> bdim (ncols A) (ncols B) = Some (ncols R)"
  using assms by (auto simp: broadcast2_def split: option.splits)

lemma broadcast2_rows:
  assumes "broadcast2 f A B = Inr R"
  shows "rows R = map2 (\<lambda>a b. map2 f (stretch (ncols A) (ncols R) a) (stretch (ncols B) (ncols R) b))
                    (stretch (nrows A) (nrows R) (rows A)) (stretch (nrows B) (nrows R) (rows B))"
  using assms by (auto simp: broadcast2_def split: option.splits)

lemma broadcast2_cell:
  assumes R: "broadcast2 f A B = Inr R"
    and wfA: "wf_ndarray A" and wfB: "wf_ndarray B"
    and i: "i < nrows R" and j: "j < ncols R"
  shows "cell R i j = f (cell A (bidx (nrows A) i) (bidx (ncols A) j))
                        (cell B (bidx (nrows B) i) (bidx (ncols B) j))"
proof -
  from broadcast2_shape [OF R] have br: "bdim (nrows A) (nrows B) = Some (nrows R)"
    and bc: "bdim (ncols A) (ncols B) = Some (ncols R)" by simp_all
  have br': "bdim (nrows B) (nrows A) = Some (nrows R)" using br by (rule bdim_sym)
  have bc': "bdim (ncols B) (ncols A) = Some (ncols R)" using bc by (rule bdim_sym)
  have lA: "length (rows A) = nrows A" and lB: "length (rows B) = nrows B"
    using wfA wfB by (simp_all add: wf_ndarray_def)
  have sA: "length (stretch (nrows A) (nrows R) (rows A)) = nrows R"
    using lA br by (rule stretch_length)
  have sB: "length (stretch (nrows B) (nrows R) (rows B)) = nrows R"
    using lB br' by (rule stretch_length)
  have rA: "stretch (nrows A) (nrows R) (rows A) ! i = rows A ! bidx (nrows A) i"
    using lA br i by (rule stretch_nth)
  have rB: "stretch (nrows B) (nrows R) (rows B) ! i = rows B ! bidx (nrows B) i"
    using lB br' i by (rule stretch_nth)
  have iA: "bidx (nrows A) i < nrows A" using br i by (rule bidx_less)
  have iB: "bidx (nrows B) i < nrows B" using br' i by (rule bidx_less)
  have cA: "length (rows A ! bidx (nrows A) i) = ncols A" using wfA iA by (rule wf_row)
  have cB: "length (rows B ! bidx (nrows B) i) = ncols B" using wfB iB by (rule wf_row)
  have tA: "length (stretch (ncols A) (ncols R) (rows A ! bidx (nrows A) i)) = ncols R"
    using cA bc by (rule stretch_length)
  have tB: "length (stretch (ncols B) (ncols R) (rows B ! bidx (nrows B) i)) = ncols R"
    using cB bc' by (rule stretch_length)
  have eA: "stretch (ncols A) (ncols R) (rows A ! bidx (nrows A) i) ! j
              = rows A ! bidx (nrows A) i ! bidx (ncols A) j"
    using cA bc j by (rule stretch_nth)
  have eB: "stretch (ncols B) (ncols R) (rows B ! bidx (nrows B) i) ! j
              = rows B ! bidx (nrows B) i ! bidx (ncols B) j"
    using cB bc' j by (rule stretch_nth)
  have "rows R ! i = map2 f (stretch (ncols A) (ncols R) (rows A ! bidx (nrows A) i))
                            (stretch (ncols B) (ncols R) (rows B ! bidx (nrows B) i))"
    using sA sB i rA rB by (simp add: broadcast2_rows [OF R])
  then show ?thesis
    using tA tB j eA eB by (simp add: cell_def)
qed

lemma broadcast2_wf:
  assumes R: "broadcast2 f A B = Inr R" and wfA: "wf_ndarray A" and wfB: "wf_ndarray B"
  shows "wf_ndarray R"
proof -
  from broadcast2_shape [OF R] have br: "bdim (nrows A) (nrows B) = Some (nrows R)"
    and bc: "bdim (ncols A) (ncols B) = Some (ncols R)" by simp_all
  have br': "bdim (nrows B) (nrows A) = Some (nrows R)" using br by (rule bdim_sym)
  have bc': "bdim (ncols B) (ncols A) = Some (ncols R)" using bc by (rule bdim_sym)
  have lA: "length (rows A) = nrows A" and lB: "length (rows B) = nrows B"
    using wfA wfB by (simp_all add: wf_ndarray_def)
  have sA: "length (stretch (nrows A) (nrows R) (rows A)) = nrows R"
    using lA br by (rule stretch_length)
  have sB: "length (stretch (nrows B) (nrows R) (rows B)) = nrows R"
    using lB br' by (rule stretch_length)
  have len: "length (rows R) = nrows R"
    using sA sB by (simp add: broadcast2_rows [OF R])
  have "length (rows R ! i) = ncols R" if i: "i < nrows R" for i
  proof -
    have rA: "stretch (nrows A) (nrows R) (rows A) ! i = rows A ! bidx (nrows A) i"
      using lA br i by (rule stretch_nth)
    have rB: "stretch (nrows B) (nrows R) (rows B) ! i = rows B ! bidx (nrows B) i"
      using lB br' i by (rule stretch_nth)
    have iA: "bidx (nrows A) i < nrows A" using br i by (rule bidx_less)
    have iB: "bidx (nrows B) i < nrows B" using br' i by (rule bidx_less)
    have cA: "length (rows A ! bidx (nrows A) i) = ncols A" using wfA iA by (rule wf_row)
    have cB: "length (rows B ! bidx (nrows B) i) = ncols B" using wfB iB by (rule wf_row)
    have tA: "length (stretch (ncols A) (ncols R) (rows A ! bidx (nrows A) i)) = ncols R"
      using cA bc by (rule stretch_length)
    have tB: "length (stretch (ncols B) (ncols R) (rows B ! bidx (nrows B) i)) = ncols R"
      using cB bc' by (rule stretch_length)
    show ?thesis
      using sA sB i rA rB tA tB by (simp add: broadcast2_rows [OF R])
  qed
  with len show ?thesis by (simp add: wf_ndarray_def list_all_length)
qed

lemma broadcast2_fails:
  "\<not> broadcastable A B \<Longrightarrow>
     broadcast2 f A B = Inl (Exn ValueError ''operands could not be broadcast together'')"
  by (auto simp: broadcast2_def broadcastable_def split: option.splits)

lemma broadcast2_succeeds:
  "broadcastable A B \<Longrightarrow> \<exists>R. broadcast2 f A B = Inr R"
  by (auto simp: broadcast2_def broadcastable_def split: option.splits)






section \<open>The loop and its values\<close>

lemma join_distinct:
  "os_path_join d ''noisy_normed_lps.htk'' \<noteq> os_path_join d ''noisy_normed_lps.scp''"
  "os_path_join d ''noisy_normed_lps.htk'' \<noteq> os_path_join d ''irm.mat''"
  "os_path_join d ''noisy_normed_lps.scp'' \<noteq> os_path_join d ''irm.mat''"
  by (simp_all add: os_path_join_def)

lemma map_of_update: "map_of (AList.update k v al) k' = (if k' = k then Some v else map_of al k')"
  by (simp add: update_conv')

lemma processify_decode:
  assumes "map_of (files w) scp = Some (Scp htk lo hi)"
    and "map_of (files w) htk = Some (Htk feats sp pk)"
  shows "processify (decode_model ext scp dir fd use_gpu gpu_id) w =
     (case mask_model ext feats use_gpu gpu_id of
        Inr irm \<Rightarrow>
          (say ProcJoin ((say ProcStart w)
             \<lparr>files := AList.update (os_path_join dir ''irm.mat'') (Mat [(''IRM'', irm)]) (files w)\<rparr>),
           Ok (Some ()))
      | Inl (e, tb) \<Rightarrow>
          if derives_Exception (ex_type e)
          then (say ProcJoin (say ProcStart w), Raise (reraised e tb))
          else (say ProcStart w, Hang))"
  using assms
  by (auto simp: processify_def process_func_def decode_model_def say_def reraised_def
      split: sum.splits prod.splits)

lemma mask_segment_snd:
  "snd (mask_segment ext gm gv use_gpu gpu_id d temp w) = mask_value ext gm gv use_gpu gpu_id temp"
proof (cases "wav2logspec ext temp")
  case (Inl e)
  then show ?thesis by (simp add: mask_segment_def mask_value_def seq_def returns_def)
next
  case lps: (Inr lps)
  show ?thesis
  proof (cases "mvn ext lps gm gv")
    case (Inl e)
    then show ?thesis using lps by (simp add: mask_segment_def mask_value_def seq_def returns_def)
  next
    case normed: (Inr normed)
    define w3 where "w3 = write_file (os_path_join d ''noisy_normed_lps.scp'')
        (Scp (os_path_join d ''noisy_normed_lps.htk'') 0 (int (nrows lps) - 1))
        (write_htk (os_path_join d ''noisy_normed_lps.htk'') normed SR 9 w)"
    have f1: "map_of (files w3) (os_path_join d ''noisy_normed_lps.scp'') =
        Some (Scp (os_path_join d ''noisy_normed_lps.htk'') 0 (int (nrows lps) - 1))"
      by (simp add: w3_def write_file_def write_htk_def map_of_update)
    have f2: "map_of (files w3) (os_path_join d ''noisy_normed_lps.htk'') = Some (Htk normed SR 9)"
      using join_distinct(1) [of d]
      by (simp add: w3_def write_file_def write_htk_def map_of_update)
    note pd = processify_decode [OF f1 f2, of ext d NFREQS use_gpu gpu_id]
    have ms: "mask_segment ext gm gv use_gpu gpu_id d temp w =
        seq (processify (decode_model ext (os_path_join d ''noisy_normed_lps.scp'') d NFREQS use_gpu gpu_id) w3)
          (\<lambda>w4 none.
             seq (w4, returns (loadmat (files w4) (os_path_join d ''irm.mat'') ''IRM'')) (\<lambda>w5 irm.
             seq (w5, returns (mask_lps ext lps irm)) (\<lambda>w6 masked_lps.
             (w6, returns (logspec2wav ext masked_lps temp)))))"
      using lps normed by (simp add: mask_segment_def seq_def returns_def w3_def Let_def)
    show ?thesis
    proof (cases "mask_model ext normed use_gpu gpu_id")
      case (Inl err)
      then show ?thesis
        using lps normed
        by (cases err) (simp add: ms pd mask_value_def seq_def)
    next
      case (Inr irm)
      then show ?thesis
        using lps normed
        by (simp add: ms pd mask_value_def seq_def returns_def loadmat_def say_def map_of_update
            split: sum.splits)
    qed
  qed
qed

lemma denoise_segment_snd:
  "snd (denoise_segment ext src gm gv use_gpu gpu_id wav_data cl tc i w) =
     segment_value ext gm gv use_gpu gpu_id (chunk_at wav_data cl i)"
proof (cases "int (length (chunk_at wav_data cl i)) < WL2")
  case True
  then show ?thesis
    by (simp add: denoise_segment_def segment_value_def mkdtemp_def)
next
  case False
  define w2 where "w2 = say (PrintSegment src i tc) (w\<lparr>tmp_count := tmp_count w + 1\<rparr>)"
  obtain w3 r where ms: "mask_segment ext gm gv use_gpu gpu_id (tmp_name ext (tmp_count w))
      (chunk_at wav_data cl i) w2 = (w3, r)"
    by (cases "mask_segment ext gm gv use_gpu gpu_id (tmp_name ext (tmp_count w))
      (chunk_at wav_data cl i) w2")
  have r: "r = mask_value ext gm gv use_gpu gpu_id (chunk_at wav_data cl i)"
    using mask_segment_snd [of ext gm gv use_gpu gpu_id "tmp_name ext (tmp_count w)"
        "chunk_at wav_data cl i" w2] ms by simp
  have "snd (denoise_segment ext src gm gv use_gpu gpu_id wav_data cl tc i w) = r"
    using False ms by (cases r) (simp_all add: denoise_segment_def mkdtemp_def w2_def)
  then show ?thesis
    using False r by (simp add: segment_value_def)
qed

lemma chunk_loop_snd:
  "snd (chunk_loop ext src gm gv use_gpu gpu_id wav_data cl tc idxs data_se w) =
     loop_value ext gm gv use_gpu gpu_id wav_data cl idxs data_se"
proof (induction idxs arbitrary: data_se w)
  case Nil
  show ?case by simp
next
  case (Cons i rest)
  obtain w' r where ds: "denoise_segment ext src gm gv use_gpu gpu_id wav_data cl tc i w = (w', r)"
    by (cases "denoise_segment ext src gm gv use_gpu gpu_id wav_data cl tc i w")
  have r: "r = segment_value ext gm gv use_gpu gpu_id (chunk_at wav_data cl i)"
    using denoise_segment_snd [of ext src gm gv use_gpu gpu_id wav_data cl tc i w] ds by simp
  show ?case
  proof (cases r)
    case (Ok x)
    then show ?thesis using ds r Cons.IH [of "data_se @ [x]" w'] by (simp add: seq_def)
  next
    case (Raise e)
    then show ?thesis using ds r by (simp add: seq_def)
  next
    case Hang
    then show ?thesis using ds r by (simp add: seq_def)
  qed
qed

lemma denoise_wav_unfold:
  assumes "librosa_load ext (files w) src = Inr (y, rate)"
    and "peak_normalization ext (map (fmul15 ext) y) = Inr wav_data"
    and "total_chunks_of (length wav_data) (chunk_length_of truncate_minutes rate) = Inr total_chunks"
    and "chunk_loop ext src gm gv use_gpu gpu_id wav_data
          (chunk_length_of truncate_minutes rate) total_chunks [1..total_chunks] [] w = (w3, r)"
  shows "denoise_wav ext src dest gm gv use_gpu gpu_id truncate_minutes w =
     (case r of
        Ok data_se \<Rightarrow>
          (case np_concatenate (map (map (astype_int16 ext)) data_se) of
             Inl e \<Rightarrow> (w3, Raise e)
           | Inr d \<Rightarrow> (write_file dest (Pcm16 SR d) w3, Ok ()))
      | Raise e \<Rightarrow> (w3, Raise e)
      | Hang \<Rightarrow> (w3, Hang))"
  using assms
  by (cases r) (simp_all add: denoise_wav_def seq_def returns_def Let_def split: sum.splits)

lemma denoise_wav_snd:
  "snd (denoise_wav ext src dest gm gv use_gpu gpu_id truncate_minutes w) =
     (case wav_value ext (librosa_load ext (files w) src) gm gv use_gpu gpu_id truncate_minutes of
        Ok d \<Rightarrow> Ok () | Raise e \<Rightarrow> Raise e | Hang \<Rightarrow> Hang)"
proof (cases "librosa_load ext (files w) src")
  case (Inl e)
  then show ?thesis by (simp add: denoise_wav_def wav_value_def seq_def returns_def)
next
  case (Inr loaded)
  obtain y rate where l: "loaded = (y, rate)" by (cases loaded)
  show ?thesis
  proof (cases "peak_normalization ext (map (fmul15 ext) y)")
    case (Inl e)
    then show ?thesis using Inr l by (simp add: denoise_wav_def wav_value_def seq_def returns_def)
  next
    case pn: (Inr wav_data)
    show ?thesis
    proof (cases "total_chunks_of (length wav_data) (chunk_length_of truncate_minutes rate)")
      case (Inl e)
      then show ?thesis
        using Inr l pn by (simp add: denoise_wav_def wav_value_def seq_def returns_def Let_def)
    next
      case tc: (Inr total_chunks)
      obtain w' r where cl: "chunk_loop ext src gm gv use_gpu gpu_id wav_data
          (chunk_length_of truncate_minutes rate) total_chunks [1..total_chunks] [] w = (w', r)"
        by (cases "chunk_loop ext src gm gv use_gpu gpu_id wav_data
          (chunk_length_of truncate_minutes rate) total_chunks [1..total_chunks] [] w")
      have lv: "loop_value ext gm gv use_gpu gpu_id wav_data
          (chunk_length_of truncate_minutes rate) [1..total_chunks] [] = r"
        using chunk_loop_snd [of ext src gm gv use_gpu gpu_id wav_data
            "chunk_length_of truncate_minutes rate" total_chunks "[1..total_chunks]" "[]" w] cl
        by simp
      have l': "librosa_load ext (files w) src = Inr (y, rate)" using Inr l by simp
      show ?thesis
        unfolding denoise_wav_unfold [OF l' pn tc cl]
        using l' pn tc lv
        by (cases r) (simp_all add: wav_value_def returns_def split: sum.splits)
    qed
  qed
qed

lemma denoise_wav_written:
  assumes "denoise_wav ext src dest gm gv use_gpu gpu_id truncate_minutes w = (w', Ok u)"
  shows "\<exists>d. wav_value ext (librosa_load ext (files w) src) gm gv use_gpu gpu_id truncate_minutes = Ok d \<and>
             map_of (files w') dest = Some (Pcm16 SR d)"
proof -
  obtain y rate where l: "librosa_load ext (files w) src = Inr (y, rate)"
    using assms by (auto simp: denoise_wav_def seq_def returns_def split: sum.splits)
  obtain wav_data where pn: "peak_normalization ext (map (fmul15 ext) y) = Inr wav_data"
    using assms l by (auto simp: denoise_wav_def seq_def returns_def split: sum.splits)
  obtain total_chunks where tc:
    "total_chunks_of (length wav_data) (chunk_length_of truncate_minutes rate) = Inr total_chunks"
    using assms l pn by (auto simp: denoise_wav_def seq_def returns_def Let_def split: sum.splits)
  obtain w3 r where cl: "chunk_loop ext src gm gv use_gpu gpu_id wav_data
      (chunk_length_of truncate_minutes rate) total_chunks [1..total_chunks] [] w = (w3, r)"
    by (cases "chunk_loop ext src gm gv use_gpu gpu_id wav_data
      (chunk_length_of truncate_minutes rate) total_chunks [1..total_chunks] [] w")
  have lv: "loop_value ext gm gv use_gpu gpu_id wav_data
      (chunk_length_of truncate_minutes rate) [1..total_chunks] [] = r"
    using chunk_loop_snd [of ext src gm gv use_gpu gpu_id wav_data
        "chunk_length_of truncate_minutes rate" total_chunks "[1..total_chunks]" "[]" w] cl
    by simp
  show ?thesis
    using assms l pn tc lv
    unfolding denoise_wav_unfold [OF l pn tc cl]
    by (cases r)
      (auto simp: wav_value_def returns_def write_file_def map_of_update split: sum.splits)
qed

section \<open>Short chunks\<close>

text \<open>
  Claim C2, as the code has it: a chunk with fewer than 256 samples (\<open>WL2 = 512 // 2\<close>) is
  appended to \<^verbatim>\<open>data_se\<close> as it is. The turn of the loop is given in closed form: it
  takes a temporary directory name, prints the progress line, removes the directory and
  returns the chunk; no function of \<^verbatim>\<open>utils\<close>, no float operation and no mask request
  occurs in it, and the only events are the progress line.
\<close>

theorem short_chunk_kept:
  assumes "length (chunk_at wav_data cl i) < 256"
  shows "denoise_segment ext src gm gv use_gpu gpu_id wav_data cl tc i w =
           (rmtree (tmp_name ext (tmp_count w))
              (say (PrintSegment src i tc) (w\<lparr>tmp_count := tmp_count w + 1\<rparr>)),
            Ok (chunk_at wav_data cl i)) \<and>
         events (fst (denoise_segment ext src gm gv use_gpu gpu_id wav_data cl tc i w)) =
           events w @ [PrintSegment src i tc]"
  using assms
  by (simp add: denoise_segment_def mkdtemp_def WL2_def WL_def rmtree_def say_def)

theorem short_chunk_kept_witness:
  "length (chunk_at [1, 2, 3 :: real] 2 2) < 256 \<and>
   snd (denoise_segment demo_ext ''a.wav'' demo_mean demo_var True 0 [1, 2, 3] 2 2 2
          (demo_world [])) = Ok [3] \<and>
   events (fst (denoise_segment demo_ext ''a.wav'' demo_mean demo_var True 0 [1, 2, 3] 2 2 2
          (demo_world []))) = events (demo_world []) @ [PrintSegment ''a.wav'' 2 2]"
  using short_chunk_kept [of "[1, 2, 3 :: real]" 2 2 demo_ext "''a.wav''" demo_mean demo_var
      True 0 2 "demo_world []"]
  by (simp add: chunk_at_def py_slice_def slice_bound_def rmtree_def say_def)

text \<open>
  Claim C2 as stated (fewer than 257 samples) fails at 256 samples: the chunk is sent
  through the mask request (a worker process is started and joined) and what comes back
  is not the input.
\<close>

theorem chunk_of_256_is_masked:
  "length (chunk_at (replicate 256 (0::real)) 256 1) < 257 \<and>
   map_prod events id
     (denoise_segment demo_ext ''a.wav'' demo_mean demo_var True 0 (replicate 256 0) 256 1 1
        (demo_world [])) =
     ([PrintSegment ''a.wav'' 1 1, ProcStart, ProcJoin], Ok (replicate 256 (- 1 / 2))) \<and>
   Ok (replicate 256 (- 1 / 2)) \<noteq> Ok (chunk_at (replicate 256 (0::real)) 256 1)"
  by code_simp

section \<open>Degenerate chunk lengths and empty input\<close>



text \<open>
  The other direction: when \<^verbatim>\<open>denoise_wav\<close> returns, the chunk length was at least 1
  (a negative chunk length gives no chunk at all, and the concatenation raises).
\<close>

lemma denoise_wav_ok_chunk_length:
  assumes "denoise_wav ext src dest gm gv use_gpu gpu_id truncate_minutes w = (w', Ok u)"
    and "librosa_load ext (files w) src = Inr (y, rate)"
  shows "1 \<le> chunk_length_of truncate_minutes rate"
proof (rule ccontr)
  assume "\<not> 1 \<le> chunk_length_of truncate_minutes rate"
  then have le: "chunk_length_of truncate_minutes rate \<le> 0" by simp
  obtain wav_data where pn: "peak_normalization ext (map (fmul15 ext) y) = Inr wav_data"
    using assms by (auto simp: denoise_wav_def seq_def returns_def split: sum.splits)
  show False
  proof (cases "chunk_length_of truncate_minutes rate = 0")
    case True
    then show False
      using assms pn by (simp add: denoise_wav_def seq_def returns_def total_chunks_of_def)
  next
    case False
    with le have neg: "chunk_length_of truncate_minutes rate < 0" by simp
    have "real (length wav_data) / of_int (chunk_length_of truncate_minutes rate) \<le> 0"
      using neg by (simp add: divide_le_0_iff)
    then have "\<lceil>real (length wav_data) / of_int (chunk_length_of truncate_minutes rate)\<rceil> \<le> 0"
      by (simp add: ceiling_le_iff)
    then have "[1..\<lceil>real (length wav_data) / of_int (chunk_length_of truncate_minutes rate)\<rceil>] = []"
      by simp
    then show False
      using assms pn False
      by (simp add: denoise_wav_def seq_def returns_def total_chunks_of_def np_concatenate_def)
  qed
qed

text \<open>
  Claim C10: when the peak-normalized waveform is empty, \<^verbatim>\<open>denoise_wav\<close> never returns
  normally and leaves the world as it was, so no output file is written; with a non-zero
  chunk length the chunk count is 0 and the error is the \<^verbatim>\<open>ValueError\<close> of
  \<^verbatim>\<open>np.concatenate\<close> on the empty list.
\<close>

theorem empty_wave_raises:
  assumes "librosa_load ext (files w) src = Inr (y, rate)"
    and "peak_normalization ext (map (fmul15 ext) y) = Inr []"
  shows "snd (denoise_wav ext src dest gm gv use_gpu gpu_id truncate_minutes w) \<noteq> Ok () \<and>
         fst (denoise_wav ext src dest gm gv use_gpu gpu_id truncate_minutes w) = w \<and>
         (chunk_length_of truncate_minutes rate \<noteq> 0 \<longrightarrow>
            total_chunks_of 0 (chunk_length_of truncate_minutes rate) = Inr 0 \<and>
            denoise_wav ext src dest gm gv use_gpu gpu_id truncate_minutes w =
              (w, Raise (Exn ValueError ''need at least one array to concatenate'')))"
proof (cases "chunk_length_of truncate_minutes rate = 0")
  case True
  then show ?thesis
    using assms by (simp add: denoise_wav_def seq_def returns_def total_chunks_of_def)
next
  case False
  then show ?thesis
    using assms
    by (simp add: denoise_wav_def seq_def returns_def total_chunks_of_def np_concatenate_def)
qed

theorem empty_wave_raises_witness:
  "librosa_load demo_ext (files (demo_world [])) ''a.wav'' = Inr ([], 16000) \<and>
   peak_normalization demo_ext (map (fmul15 demo_ext) []) = Inr [] \<and>
   chunk_length_of 10 16000 \<noteq> 0 \<and>
   total_chunks_of 0 (chunk_length_of 10 16000) = Inr 0 \<and>
   denoise_wav demo_ext ''a.wav'' ''b.wav'' demo_mean demo_var True 0 10 (demo_world []) =
     (demo_world [], Raise (Exn ValueError ''need at least one array to concatenate''))"
  using empty_wave_raises [of demo_ext "demo_world []" "''a.wav''" "[]" 16000 "''b.wav''"
      demo_mean demo_var True 0 10]
  by (simp add: demo_ext_def demo_world_def demo_load_def chunk_length_of_def py_int_def)

section \<open>Feature normalization\<close>

text \<open>
  Claim C7: for a frame matrix with 257 columns and a mean and a variance of shape
  \<open>(1, 257)\<close> (the vectors of length 257 as \<^verbatim>\<open>loadmat\<close> returns them), the
  normalization returns an array of the frames' shape whose entry \<open>(i, j)\<close> is
  \<open>(frames[i][j] - mean[j]) / variance[j]\<close>, in the float operations of the platform. It
  is a function of its three arguments alone: it takes no world and returns none.
\<close>

theorem mvn_elementwise:
  assumes "wf_ndarray frames" and "ncols frames = 257"
    and "wf_ndarray mean" and "shape mean = (1, 257)"
    and "wf_ndarray var" and "shape var = (1, 257)"
  shows "\<exists>R. mvn ext frames mean var = Inr R \<and> shape R = shape frames \<and> wf_ndarray R \<and>
           (\<forall>i<nrows frames. \<forall>j<257.
              cell R i j = fdiv ext (fsub ext (cell frames i j) (cell mean 0 j)) (cell var 0 j))"
proof -
  have sm: "nrows mean = 1" "ncols mean = 257" and sv: "nrows var = 1" "ncols var = 257"
    using assms(4,6) by (simp_all add: shape_def)
  have "broadcastable frames mean"
    using sm assms(2) by (simp add: broadcastable_def bdim_def)
  then obtain D where D: "broadcast2 (fsub ext) frames mean = Inr D"
    using broadcast2_succeeds by blast
  have shD: "nrows D = nrows frames" "ncols D = 257"
    using broadcast2_shape [OF D] sm assms(2) by (auto simp: bdim_def split: if_splits)
  have wfD: "wf_ndarray D" using D assms(1,3) by (rule broadcast2_wf)
  have "broadcastable D var"
    using sv shD by (simp add: broadcastable_def bdim_def)
  then obtain R where R: "broadcast2 (fdiv ext) D var = Inr R"
    using broadcast2_succeeds by blast
  have shR: "nrows R = nrows frames" "ncols R = 257"
    using broadcast2_shape [OF R] sv shD by (auto simp: bdim_def split: if_splits)
  have wfR: "wf_ndarray R" using R wfD assms(5) by (rule broadcast2_wf)
  have "cell R i j = fdiv ext (fsub ext (cell frames i j) (cell mean 0 j)) (cell var 0 j)"
    if i: "i < nrows frames" and j: "j < 257" for i j
  proof -
    have bi: "bidx (nrows frames) i = i" using i by (auto simp: bidx_def)
    have "cell R i j = fdiv ext (cell D (bidx (nrows D) i) (bidx (ncols D) j))
                                (cell var (bidx (nrows var) i) (bidx (ncols var) j))"
      using R wfD assms(5) by (rule broadcast2_cell) (use i j shR in simp_all)
    also have "cell D (bidx (nrows D) i) (bidx (ncols D) j) = cell D i j"
      using bi shD by (simp add: bidx_def)
    also have "cell D i j = fsub ext (cell frames (bidx (nrows frames) i) (bidx (ncols frames) j))
                                     (cell mean (bidx (nrows mean) i) (bidx (ncols mean) j))"
      using D assms(1,3) by (rule broadcast2_cell) (use i j shD in simp_all)
    finally show ?thesis
      using bi sm sv assms(2) by (simp add: bidx_def)
  qed
  then show ?thesis
    using D R shR wfR assms(2) by (auto simp: mvn_def shape_def)
qed

theorem mvn_elementwise_witness:
  "wf_ndarray demo_lps \<and> ncols demo_lps = 257 \<and>
   wf_ndarray demo_stat_mean \<and> shape demo_stat_mean = (1, 257) \<and>
   wf_ndarray demo_stat_var \<and> shape demo_stat_var = (1, 257) \<and>
   (\<exists>R. mvn demo_ext demo_lps demo_stat_mean demo_stat_var = Inr R \<and> shape R = (2, 257) \<and>
        cell R 0 0 = 1 \<and> cell R 1 200 = 2)"
proof -
  have h: "wf_ndarray demo_lps" "ncols demo_lps = 257"
    "wf_ndarray demo_stat_mean" "shape demo_stat_mean = (1, 257)"
    "wf_ndarray demo_stat_var" "shape demo_stat_var = (1, 257)"
    by (simp_all add: wf_ndarray_def demo_lps_def demo_stat_mean_def demo_stat_var_def shape_def)
  from mvn_elementwise [OF h, of demo_ext]
  obtain R where R: "mvn demo_ext demo_lps demo_stat_mean demo_stat_var = Inr R"
    and s: "shape R = shape demo_lps"
    and c: "\<forall>i<nrows demo_lps. \<forall>j<257. cell R i j =
        fdiv demo_ext (fsub demo_ext (cell demo_lps i j) (cell demo_stat_mean 0 j)) (cell demo_stat_var 0 j)"
    by blast
  have "cell R 0 0 = 1"
    using c [rule_format, of 0 0]
    by (simp add: demo_lps_def demo_stat_mean_def demo_stat_var_def demo_ext_def cell_def)
  moreover have "cell R 1 200 = 2"
    using c [rule_format, of 1 200]
    by (simp add: demo_lps_def demo_stat_mean_def demo_stat_var_def demo_ext_def cell_def)
  ultimately show ?thesis
    using h R s by (auto simp: shape_def demo_lps_def)
qed

lemma bidx_id: "i < n \<Longrightarrow> bidx n i = i"
  by (auto simp: bidx_def)

lemma map_ndarray_wf: "wf_ndarray (map_ndarray f A) = wf_ndarray A"
  by (simp add: wf_ndarray_def map_ndarray_def list_all_length)

lemma map_ndarray_cell:
  "wf_ndarray A \<Longrightarrow> i < nrows A \<Longrightarrow> j < ncols A \<Longrightarrow> cell (map_ndarray f A) i j = f (cell A i j)"
  by (simp add: wf_ndarray_def map_ndarray_def cell_def list_all_length)

lemma mask_lps_cell:
  assumes m: "mask_lps ext lps irm = Inr masked"
    and wl: "wf_ndarray lps" and wi: "wf_ndarray irm" and sh: "shape irm = shape lps"
  shows "shape masked = shape lps"
    and "i < nrows lps \<Longrightarrow> j < ncols lps \<Longrightarrow>
           cell masked i j = fadd ext (cell lps i j) (flog ext (cell irm i j))"
proof -
  have b: "broadcast2 (fadd ext) lps (map_ndarray (flog ext) irm) = Inr masked"
    using m by (simp add: mask_lps_def)
  have s: "nrows irm = nrows lps" "ncols irm = ncols lps"
    using sh by (simp_all add: shape_def)
  have sm: "nrows (map_ndarray (flog ext) irm) = nrows lps" "ncols (map_ndarray (flog ext) irm) = ncols lps"
    using s by (simp_all add: map_ndarray_def)
  have shm: "nrows masked = nrows lps" "ncols masked = ncols lps"
    using broadcast2_shape [OF b] sm by (simp_all add: bdim_same)
  show "shape masked = shape lps" using shm by (simp add: shape_def)
  assume i: "i < nrows lps" and j: "j < ncols lps"
  have wm: "wf_ndarray (map_ndarray (flog ext) irm)" using wi by (simp add: map_ndarray_wf)
  have "cell masked i j = fadd ext (cell lps (bidx (nrows lps) i) (bidx (ncols lps) j))
      (cell (map_ndarray (flog ext) irm) (bidx (nrows (map_ndarray (flog ext) irm)) i)
         (bidx (ncols (map_ndarray (flog ext) irm)) j))"
    using b wl wm by (rule broadcast2_cell) (use i j shm in simp_all)
  then show "cell masked i j = fadd ext (cell lps i j) (flog ext (cell irm i j))"
    using i j s wi by (simp add: sm bidx_id map_ndarray_cell)
qed

section \<open>Masking\<close>

text \<open>
  Claim C6: when a chunk of at least 256 samples is processed and the turn of the loop
  returns, the samples returned are \<^verbatim>\<open>logspec2wav\<close> of the masked spectrum and of the
  original chunk, the masked spectrum is the chunk's own (unnormalized) spectrum plus the
  logarithm of the mask the model returned for the normalized frames, and for a mask of the
  frames' shape that sum is taken entry by entry. The chunk itself is the only source of
  phase the reconstruction is given; the mask enters through the spectrum alone.
\<close>

theorem masking_in_log_domain:
  assumes "256 \<le> length (chunk_at wav_data cl i)"
    and "denoise_segment ext src gm gv use_gpu gpu_id wav_data cl tc i w = (w', Ok out)"
  shows "\<exists>lps normed irm masked.
           wav2logspec ext (chunk_at wav_data cl i) = Inr lps \<and>
           mvn ext lps gm gv = Inr normed \<and>
           mask_model ext normed use_gpu gpu_id = Inr irm \<and>
           mask_lps ext lps irm = Inr masked \<and>
           logspec2wav ext masked (chunk_at wav_data cl i) = Inr out \<and>
           (wf_ndarray lps \<and> wf_ndarray irm \<and> shape irm = shape lps \<longrightarrow>
              shape masked = shape lps \<and>
              (\<forall>r<nrows lps. \<forall>c<ncols lps.
                 cell masked r c = fadd ext (cell lps r c) (flog ext (cell irm r c))))"
proof -
  have "segment_value ext gm gv use_gpu gpu_id (chunk_at wav_data cl i) = Ok out"
    using denoise_segment_snd [of ext src gm gv use_gpu gpu_id wav_data cl tc i w] assms(2) by simp
  then have mv: "mask_value ext gm gv use_gpu gpu_id (chunk_at wav_data cl i) = Ok out"
    using assms(1) by (simp add: segment_value_def WL2_def WL_def)
  then obtain lps where lps: "wav2logspec ext (chunk_at wav_data cl i) = Inr lps"
    by (auto simp: mask_value_def split: sum.splits)
  from mv lps obtain normed where normed: "mvn ext lps gm gv = Inr normed"
    by (auto simp: mask_value_def split: sum.splits)
  from mv lps normed obtain irm where irm: "mask_model ext normed use_gpu gpu_id = Inr irm"
    by (auto simp: mask_value_def split: sum.splits prod.splits if_splits)
  from mv lps normed irm obtain masked where masked: "mask_lps ext lps irm = Inr masked"
    by (auto simp: mask_value_def split: sum.splits)
  from mv lps normed irm masked have out: "logspec2wav ext masked (chunk_at wav_data cl i) = Inr out"
    by (auto simp: mask_value_def returns_def split: sum.splits)
  show ?thesis
    using lps normed irm masked out mask_lps_cell [OF masked]
    by blast
qed

lemma chunk_at_whole: "chunk_at (replicate n x) (int n) 1 = replicate n x"
  by (cases "n = 0") (simp_all add: chunk_at_def py_slice_def slice_bound_def)

theorem masking_in_log_domain_witness:
  "256 \<le> length (chunk_at (replicate 256 (0::real)) 256 1) \<and>
   (\<exists>w'. denoise_segment demo_ext ''a.wav'' demo_mean demo_var True 0 (replicate 256 0) 256 1 1
           (demo_world []) = (w', Ok (replicate 256 (- 1 / 2)))) \<and>
   (\<exists>lps irm masked.
      wav2logspec demo_ext (chunk_at (replicate 256 0) 256 1) = Inr lps \<and>
      wf_ndarray lps \<and> wf_ndarray irm \<and> shape irm = shape lps \<and>
      mask_lps demo_ext lps irm = Inr masked \<and>
      cell masked 0 0 = fadd demo_ext (cell lps 0 0) (flog demo_ext (cell irm 0 0)) \<and>
      logspec2wav demo_ext masked (chunk_at (replicate 256 0) 256 1) = Inr (replicate 256 (- 1 / 2)))"
proof -
  have ch: "chunk_at (replicate 256 (0::real)) 256 1 = replicate 256 0"
    using chunk_at_whole [of 256 "0::real"] by simp
  have len: "256 \<le> length (chunk_at (replicate 256 (0::real)) 256 1)"
    by (simp add: ch)
  have "snd (denoise_segment demo_ext ''a.wav'' demo_mean demo_var True 0 (replicate 256 0) 256 1 1
           (demo_world [])) = Ok (replicate 256 (- 1 / 2))"
    by code_simp
  then obtain w' where run: "denoise_segment demo_ext ''a.wav'' demo_mean demo_var True 0
      (replicate 256 0) 256 1 1 (demo_world []) = (w', Ok (replicate 256 (- 1 / 2)))"
    by (cases "denoise_segment demo_ext ''a.wav'' demo_mean demo_var True 0
      (replicate 256 0) 256 1 1 (demo_world [])") simp
  from masking_in_log_domain [OF len run]
  obtain lps normed irm masked where
    lps: "wav2logspec demo_ext (chunk_at (replicate 256 0) 256 1) = Inr lps"
    and normed: "mvn demo_ext lps demo_mean demo_var = Inr normed"
    and irm: "mask_model demo_ext normed True 0 = Inr irm"
    and masked: "mask_lps demo_ext lps irm = Inr masked"
    and out: "logspec2wav demo_ext masked (chunk_at (replicate 256 0) 256 1) = Inr (replicate 256 (- 1 / 2))"
    and cells: "wf_ndarray lps \<and> wf_ndarray irm \<and> shape irm = shape lps \<longrightarrow>
       shape masked = shape lps \<and>
       (\<forall>r<nrows lps. \<forall>c<ncols lps.
          cell masked r c = fadd demo_ext (cell lps r c) (flog demo_ext (cell irm r c)))"
    by blast
  have l: "lps = demo_frames (replicate 256 0)"
    using lps by (simp add: demo_ext_def ch)
  have wl: "wf_ndarray lps" and sl: "shape lps = (1, 257)"
    by (simp_all add: l demo_frames_def wf_ndarray_def shape_def)
  have sn: "nrows normed = 1" "ncols normed = 257"
    using normed
    by (auto simp: mvn_def broadcast2_def bdim_def l demo_frames_def demo_mean_def demo_var_def
        split: sum.splits)
  have i: "irm = normed\<lparr>rows := replicate 1 (replicate 257 (1 / 2))\<rparr>"
    using irm sn by (simp add: demo_ext_def demo_mask_def)
  have wi: "wf_ndarray irm" and si: "shape irm = (1, 257)"
    using sn by (simp_all add: i wf_ndarray_def shape_def)
  have "cell masked 0 0 = fadd demo_ext (cell lps 0 0) (flog demo_ext (cell irm 0 0))"
    using cells wl wi sl si by (simp add: shape_def)
  then show ?thesis
    using len run lps wl wi sl si masked out by auto
qed

lemma broadcastable_map: "broadcastable A (map_ndarray f B) = broadcastable A B"
  by (simp add: broadcastable_def map_ndarray_def)

text \<open>
  Claim C3, as the code has it: the caller does not compare the shapes. The mask that was
  read back goes into \<^verbatim>\<open>noisy_htkdata + np.log(irm)\<close>; a mask that cannot be broadcast
  against the frames raises numpy's \<^verbatim>\<open>ValueError\<close> there, and any mask that can be
  broadcast is accepted and the sum is handed to the reconstruction.
\<close>

theorem mask_shape_by_broadcasting:
  assumes "256 \<le> length (chunk_at wav_data cl i)"
    and "wav2logspec ext (chunk_at wav_data cl i) = Inr lps"
    and "mvn ext lps gm gv = Inr normed"
    and "mask_model ext normed use_gpu gpu_id = Inr irm"
  shows "(\<not> broadcastable lps irm \<longrightarrow>
            snd (denoise_segment ext src gm gv use_gpu gpu_id wav_data cl tc i w) =
              Raise (Exn ValueError ''operands could not be broadcast together'')) \<and>
         (broadcastable lps irm \<longrightarrow>
            (\<exists>masked. mask_lps ext lps irm = Inr masked \<and>
               snd (denoise_segment ext src gm gv use_gpu gpu_id wav_data cl tc i w) =
                 returns (logspec2wav ext masked (chunk_at wav_data cl i))))"
proof -
  have v: "snd (denoise_segment ext src gm gv use_gpu gpu_id wav_data cl tc i w) =
      (case mask_lps ext lps irm of
         Inl e \<Rightarrow> Raise e
       | Inr masked \<Rightarrow> returns (logspec2wav ext masked (chunk_at wav_data cl i)))"
    using assms
    by (simp add: denoise_segment_snd segment_value_def mask_value_def WL2_def WL_def)
  show ?thesis
  proof (cases "broadcastable lps irm")
    case True
    then have "broadcastable lps (map_ndarray (flog ext) irm)"
      by (simp add: broadcastable_map)
    then obtain masked where "mask_lps ext lps irm = Inr masked"
      unfolding mask_lps_def using broadcast2_succeeds by blast
    then show ?thesis using True v by simp
  next
    case False
    then have "\<not> broadcastable lps (map_ndarray (flog ext) irm)"
      by (simp add: broadcastable_map)
    then have "mask_lps ext lps irm = Inl (Exn ValueError ''operands could not be broadcast together'')"
      unfolding mask_lps_def by (rule broadcast2_fails)
    then show ?thesis using False v by simp
  qed
qed

text \<open>
  Claim C3 as stated fails: a mask of shape \<open>(1, 257)\<close> for frames of shape \<open>(2, 257)\<close>
  is accepted without an error and the chunk is reconstructed from it.
\<close>

theorem broadcast_mask_accepted:
  "wav2logspec demo_ext_row (chunk_at (replicate 512 0) 512 1) = Inr (demo_frames (replicate 512 0)) \<and>
   shape (demo_frames (replicate 512 0)) = (2, 257) \<and>
   mvn demo_ext_row (demo_frames (replicate 512 0)) demo_mean demo_var = Inr (demo_frames (replicate 512 0)) \<and>
   mask_model demo_ext_row (demo_frames (replicate 512 0)) True 0 = Inr demo_row \<and>
   shape demo_row = (1, 257) \<and>
   shape demo_row \<noteq> shape (demo_frames (replicate 512 0)) \<and>
   snd (denoise_segment demo_ext_row ''a.wav'' demo_mean demo_var True 0 (replicate 512 0) 512 1 1
          (demo_world [])) = Ok (replicate 512 (- 1 / 2))"
  by code_simp

theorem mask_shape_by_broadcasting_witness:
  "256 \<le> length (chunk_at (replicate 512 (0::real)) 512 1) \<and>
   wav2logspec demo_ext_tall (chunk_at (replicate 512 0) 512 1) = Inr (demo_frames (replicate 512 0)) \<and>
   mvn demo_ext_tall (demo_frames (replicate 512 0)) demo_mean demo_var = Inr (demo_frames (replicate 512 0)) \<and>
   mask_model demo_ext_tall (demo_frames (replicate 512 0)) True 0 = Inr demo_tall \<and>
   \<not> broadcastable (demo_frames (replicate 512 0)) demo_tall \<and>
   snd (denoise_segment demo_ext_tall ''a.wav'' demo_mean demo_var True 0 (replicate 512 0) 512 1 1
          (demo_world [])) = Raise (Exn ValueError ''operands could not be broadcast together'')"
proof -
  have ch: "chunk_at (replicate 512 (0::real)) 512 1 = replicate 512 0"
    using chunk_at_whole [of 512 "0::real"] by simp
  have h1: "256 \<le> length (chunk_at (replicate 512 (0::real)) 512 1)"
    by (simp add: ch)
  have h2: "wav2logspec demo_ext_tall (chunk_at (replicate 512 0) 512 1) = Inr (demo_frames (replicate 512 0))"
    by (simp add: ch demo_ext_tall_def demo_ext_def)
  have h3: "mvn demo_ext_tall (demo_frames (replicate 512 0)) demo_mean demo_var = Inr (demo_frames (replicate 512 0))"
    by code_simp
  have h4: "mask_model demo_ext_tall (demo_frames (replicate 512 0)) True 0 = Inr demo_tall"
    by (simp add: demo_ext_tall_def demo_ext_def)
  have nb: "\<not> broadcastable (demo_frames (replicate 512 0)) demo_tall"
    by (simp add: broadcastable_def bdim_def demo_frames_def demo_tall_def)
  show ?thesis
    using mask_shape_by_broadcasting [OF h1 h2 h3 h4, of "''a.wav''" 1 "demo_world []"] h1 h2 h3 h4 nb
    by simp
qed

section \<open>The worker process\<close>




section \<open>Chunk boundaries and the length of the output\<close>







section \<open>The same input gives the same output\<close>

lemma mask_value_tmp_name:
  "mask_value (ext\<lparr>tmp_name := names\<rparr>) gm gv use_gpu gpu_id temp =
     mask_value ext gm gv use_gpu gpu_id temp"
  by (auto simp: mask_value_def mvn_def mask_lps_def split: sum.splits prod.splits)

lemma loop_value_tmp_name:
  "loop_value (ext\<lparr>tmp_name := names\<rparr>) gm gv use_gpu gpu_id wav_data cl idxs data_se =
     loop_value ext gm gv use_gpu gpu_id wav_data cl idxs data_se"
  by (induction idxs arbitrary: data_se)
    (simp_all add: segment_value_def mask_value_tmp_name split: result.splits)

lemma wav_value_tmp_name:
  "wav_value (ext\<lparr>tmp_name := names\<rparr>) loaded gm gv use_gpu gpu_id truncate_minutes =
     wav_value ext loaded gm gv use_gpu gpu_id truncate_minutes"
  by (auto simp: wav_value_def loop_value_tmp_name split: sum.splits prod.splits result.splits)

text \<open>
  Claim C8: two runs of \<^verbatim>\<open>denoise_wav\<close> that load the same waveform, with the same
  statistics, options and mask model, end the same way and, when they return, write the
  same samples, whatever the other files, the messages so far and the names of the
  temporary directories are in each run: those names are the only choice the pipeline
  leaves to its environment, and the output does not depend on them.
\<close>

theorem same_input_same_output:
  assumes "librosa_load ext (files w1) src = librosa_load ext (files w2) src"
  shows "snd (denoise_wav ext src dest gm gv use_gpu gpu_id truncate_minutes w1) =
           snd (denoise_wav (ext\<lparr>tmp_name := names\<rparr>) src dest gm gv use_gpu gpu_id
                  truncate_minutes w2) \<and>
         (snd (denoise_wav ext src dest gm gv use_gpu gpu_id truncate_minutes w1) = Ok () \<longrightarrow>
            (\<exists>data.
               map_of (files (fst (denoise_wav ext src dest gm gv use_gpu gpu_id
                  truncate_minutes w1))) dest = Some (Pcm16 SR data) \<and>
               map_of (files (fst (denoise_wav (ext\<lparr>tmp_name := names\<rparr>) src dest gm gv use_gpu
                  gpu_id truncate_minutes w2))) dest = Some (Pcm16 SR data)))"
proof -
  define run1 where "run1 = denoise_wav ext src dest gm gv use_gpu gpu_id truncate_minutes w1"
  define run2 where "run2 = denoise_wav (ext\<lparr>tmp_name := names\<rparr>) src dest gm gv use_gpu gpu_id
      truncate_minutes w2"
  define v where "v = wav_value ext (librosa_load ext (files w1) src) gm gv use_gpu gpu_id
      truncate_minutes"
  have v2: "wav_value (ext\<lparr>tmp_name := names\<rparr>)
      (librosa_load (ext\<lparr>tmp_name := names\<rparr>) (files w2) src) gm gv use_gpu gpu_id
      truncate_minutes = v"
    using assms by (simp add: v_def wav_value_tmp_name)
  have s1: "snd run1 = (case v of Ok d \<Rightarrow> Ok () | Raise e \<Rightarrow> Raise e | Hang \<Rightarrow> Hang)"
    unfolding run1_def v_def by (rule denoise_wav_snd)
  have s2: "snd run2 = (case v of Ok d \<Rightarrow> Ok () | Raise e \<Rightarrow> Raise e | Hang \<Rightarrow> Hang)"
    unfolding run2_def v2 [symmetric] by (rule denoise_wav_snd)
  have same: "snd run1 = snd run2" using s1 s2 by simp
  have out: "\<exists>data. map_of (files (fst run1)) dest = Some (Pcm16 SR data) \<and>
      map_of (files (fst run2)) dest = Some (Pcm16 SR data)" if ok: "snd run1 = Ok ()"
  proof -
    have r1: "run1 = (fst run1, Ok ())" using ok by (cases run1) simp
    have r2: "run2 = (fst run2, Ok ())" using ok same by (cases run2) simp
    from denoise_wav_written [OF r1 [unfolded run1_def]]
    obtain d1 where d1: "v = Ok d1" "map_of (files (fst run1)) dest = Some (Pcm16 SR d1)"
      unfolding v_def run1_def by blast
    from denoise_wav_written [OF r2 [unfolded run2_def]]
    obtain d2 where d2: "v = Ok d2" "map_of (files (fst run2)) dest = Some (Pcm16 SR d2)"
      unfolding v2 run2_def by blast
    show ?thesis using d1 d2 by simp
  qed
  show ?thesis
    using same out unfolding run1_def run2_def by blast
qed

theorem same_input_same_output_witness:
  "librosa_load demo_ext (files (demo_world demo_long)) ''a.wav'' =
     librosa_load demo_ext (files (demo_other_world demo_long)) ''a.wav'' \<and>
   snd (denoise_wav demo_ext ''a.wav'' ''b.wav'' demo_mean demo_var True 0 (1 / 3750)
          (demo_world demo_long)) =
     snd (denoise_wav (demo_ext\<lparr>tmp_name := (\<lambda>n. ''/var/tmp/job'' @ replicate n CHR ''y'')\<rparr>)
          ''a.wav'' ''b.wav'' demo_mean demo_var True 0 (1 / 3750) (demo_other_world demo_long)) \<and>
   tmp_name demo_ext 0 \<noteq> ''/var/tmp/job'' @ replicate 7 CHR ''y''"
proof -
  have h: "librosa_load demo_ext (files (demo_world demo_long)) ''a.wav'' =
     librosa_load demo_ext (files (demo_other_world demo_long)) ''a.wav''"
    by (simp add: demo_ext_def demo_world_def demo_other_world_def demo_load_def)
  show ?thesis
    using same_input_same_output [OF h, of "''b.wav''" demo_mean demo_var True 0 "1 / 3750"
        "\<lambda>n. ''/var/tmp/job'' @ replicate n CHR ''y''"] h
    by (simp add: demo_ext_def)
qed

section \<open>A failing file in a batch\<close>





end
